theory Spec2Isabelle
  imports Main
begin

section \<open>Values exchanged with the completion service\<close>

text \<open>
  The pipeline of \<^verbatim>\<open>backend/utils/ai_parser.py\<close> handles Python dictionaries, lists and
  strings that come out of \<^verbatim>\<open>json.loads\<close>. They are modelled by a JSON datatype; a
  dictionary is an association list in insertion order. Python strings are modelled as
  \<^typ>\<open>string\<close>, a character outside ASCII by its UTF-8 bytes. A float is kept by its
  literal, since no operation of the pipeline computes with it.
\<close>

datatype json =
    JNull
  | JBool bool
  | JInt int
  | JFloat string
  | JString string
  | JArray "json list"
  | JObject "(string \<times> json) list"

text \<open>
  A raised Python exception: its class, as far as the handlers of the pipeline
  distinguish classes, and the text that \<^verbatim>\<open>str(error)\<close> gives.
\<close>

datatype exn =
    JSONDecodeError string
  | IndexError string
  | TypeError string
  | Exception string

fun str_exn :: "exn \<Rightarrow> string" where
  "str_exn (JSONDecodeError m) = m"
| "str_exn (IndexError m) = m"
| "str_exn (TypeError m) = m"
| "str_exn (Exception m) = m"

definition nl :: string where
  "nl = [CHR 0x0A]"

text \<open>Python's \<^verbatim>\<open>sep.join(xs)\<close>.\<close>

fun join :: "string \<Rightarrow> string list \<Rightarrow> string" where
  "join sep [] = []"
| "join sep [x] = x"
| "join sep (x # y # ys) = x @ sep @ join sep (y # ys)"

section \<open>The schema contract\<close>

text \<open>
  \<^verbatim>\<open>resume_function\<close> of \<^verbatim>\<open>extract_data_from_text\<close>: the name of the tool, the
  top-level properties of its parameter schema with their JSON types, and the list
  \<^verbatim>\<open>"required"\<close>. The nested item schemas and the descriptions are instructions to the
  model and are not part of the embedding.
\<close>

definition resume_function_name :: string where
  "resume_function_name = ''parse_resume''"

definition resume_function_properties :: "(string \<times> string) list" where
  "resume_function_properties =
    [(''name'', ''string''),
     (''title'', ''string''),
     (''requisitionNumber'', ''string''),
     (''professionalSummary'', ''array''),
     (''summarySections'', ''array''),
     (''employmentHistory'', ''array''),
     (''education'', ''array''),
     (''certifications'', ''array''),
     (''technicalSkills'', ''object''),
     (''skillCategories'', ''array'')]"

definition resume_function_required :: "string list" where
  "resume_function_required = [''name'', ''professionalSummary'', ''employmentHistory'']"

definition keys :: "json \<Rightarrow> string list" where
  "keys v = (case v of JObject kvs \<Rightarrow> map fst kvs | _ \<Rightarrow> [])"

definition is_object :: "json \<Rightarrow> bool" where
  "is_object v = (case v of JObject kvs \<Rightarrow> True | _ \<Rightarrow> False)"

text \<open>An object that carries every required top-level key of the schema.\<close>

definition has_required_keys :: "json \<Rightarrow> bool" where
  "has_required_keys v =
     (is_object v \<and> list_all (\<lambda>k. k \<in> set (keys v)) resume_function_required)"

text \<open>An empty string, an empty list or an empty dictionary.\<close>

definition is_blank :: "json \<Rightarrow> bool" where
  "is_blank v = (v = JString [] \<or> v = JArray [] \<or> v = JObject [])"

definition all_fields_blank :: "json \<Rightarrow> bool" where
  "all_fields_blank v =
     (case v of JObject kvs \<Rightarrow> list_all (\<lambda>kv. is_blank (snd kv)) kvs | _ \<Rightarrow> False)"

definition get_default_resume_structure :: json where
  "get_default_resume_structure = JObject
    [(''name'', JString ''''),
     (''title'', JString ''''),
     (''requisitionNumber'', JString ''''),
     (''professionalSummary'', JArray []),
     (''summarySections'', JArray []),
     (''employmentHistory'', JArray []),
     (''education'', JArray []),
     (''certifications'', JArray []),
     (''technicalSkills'', JObject []),
     (''skillCategories'', JArray [])]"

section \<open>Prompts\<close>

definition get_system_prompt :: string where
  \<open>get_system_prompt = join nl
    [
     ''You are a MASTER resume parser with 40 years of experience extracting information with perfect accuracy. Your extraction must be EXHAUSTIVE and PRECISE.'',
     '''',
     ''CRITICAL EXTRACTION IMPERATIVES:'',
     ''1. EXTRACT 100% OF THE CONTENT - Missing even a single word, bullet point, or detail is a CRITICAL FAILURE'',
     ''2. PRESERVE EXACT STRUCTURE - Maintain the precise organization of the resume'',
     ''3. NO SUMMARIZATION OR MODIFICATION - Never condense, paraphrase, or alter any content'',
     ''4. COMPLETE VERIFICATION - Before finalizing, verify you've included EVERY job entry and EVERY professional summary point'',
     '''',
     ''SECTION-SPECIFIC MANDATES:'',
     ''- PROFESSIONAL SUMMARY: '',
     ''  * Extract ALL paragraphs and ALL bullet points completely'',
     ''  * Create subsections ONLY for explicitly labeled sections'',
     ''  * CRITICAL: Do not miss a single point or detail'',
     '''',
     ''- EMPLOYMENT HISTORY - MOST CRITICAL SECTION: '',
     ''  * Extract EVERY job position with ALL details - NO EXCEPTIONS'',
     ''  * MULTIPLE CLIENTS/PROJECTS: If one job entry contains work for multiple clients or projects, extract each client/project separately in the clientProjects array'',
     ''  * CLIENT IDENTIFICATION: Look for patterns like "Client: XYZ Corp", "Project for ABC Inc", or multiple company names within one job'',
     ''  * Include ALL responsibilities and ALL subsections'',
     ''  * CRITICAL: Missing even a single job entry or client project is an UNACCEPTABLE FAILURE'',
     ''  * JOB COUNTING: Count the total number of distinct jobs in the resume and ensure you extract exactly that many'',
     '''',
     ''- CERTIFICATIONS:'',
     ''  * ONLY extract certifications that are explicitly mentioned as certifications, certificates, or licenses'',
     ''  * DO NOT create dummy or placeholder certifications'',
     ''  * IF NO CERTIFICATIONS EXIST, leave the array empty'',
     ''  * NEVER invent certification names, issuers, or details'',
     '''',
     ''- SKILLS: '',
     ''  * Preserve ALL skills exactly as written with their exact categorization'',
     ''  * Maintain all hierarchical relationships between skill categories'',
     '''',
     ''EMPLOYMENT EXTRACTION VERIFICATION PROTOCOL:'',
     ''1. Scan the entire resume and COUNT the total number of job positions'',
     ''2. For each job, check if it contains multiple clients or projects within the same role'',
     ''3. Extract each job completely with all details'',
     ''4. Verify that your extraction count matches the original job count'',
     ''5. Double-check for any missed employment entries'',
     '''',
     ''CERTIFICATION EXTRACTION PROTOCOL:'',
     ''1. Only extract items explicitly labeled as certifications, certificates, or professional licenses'',
     ''2. If you cannot find clear certification information, return an empty array'',
     ''3. NEVER create placeholder or example certifications'',
     '''',
     ''Your reputation as the world's most accurate resume parser is at stake. Achieve nothing less than PERFECT extraction.''
    ]\<close>

text \<open>Python's \<^verbatim>\<open>str\<close> of an integer, as the f-strings of the prompt use it.\<close>

definition digit_char :: "nat \<Rightarrow> char" where
  "digit_char d = ''0123456789'' ! d"

function str_digits :: "int \<Rightarrow> string" where
  "str_digits n =
     (if n < 10 then [digit_char (nat n)]
      else str_digits (n div 10) @ [digit_char (nat (n mod 10))])"
  by pat_completeness auto
termination
  by (relation "measure nat") auto

declare str_digits.simps [simp del]

definition str_int :: "int \<Rightarrow> string" where
  "str_int i = (if i < 0 then ''-'' @ str_digits (- i) else str_digits i)"

text \<open>
  \<^verbatim>\<open>add_prompt_variation\<close> reads the wall clock twice and the random generator twice.
  What it reads is an explicit input of the model:
  \<^item> \<open>time_ms\<close> is \<^verbatim>\<open>int(time.time() * 1000)\<close>;
  \<^item> \<open>choice_indices\<close> are the positions \<^verbatim>\<open>floor(random() * 36)\<close> that
    \<^verbatim>\<open>random.choices(population, k=13)\<close> draws, one for each of the 13 characters;
  \<^item> \<open>isoformat_now\<close> is \<^verbatim>\<open>datetime.now().isoformat()\<close>;
  \<^item> \<open>randint_value\<close> is \<^verbatim>\<open>random.randint(100000, 999999)\<close>.
\<close>

record entropy =
  time_ms :: int
  choice_indices :: "nat list"
  isoformat_now :: string
  randint_value :: int

definition population :: string where
  "population = ''abcdefghijklmnopqrstuvwxyz0123456789''"

text \<open>The draws that the generator and the clock can deliver.\<close>

definition entropy_ok :: "entropy \<Rightarrow> bool" where
  "entropy_ok e =
     (length (choice_indices e) = 13 \<and> list_all (\<lambda>i. i < length population) (choice_indices e)
      \<and> 100000 \<le> randint_value e \<and> randint_value e \<le> 999999)"

definition random_choices :: "string \<Rightarrow> nat \<Rightarrow> nat list \<Rightarrow> string" where
  "random_choices pop k idxs = map (\<lambda>i. pop ! i) (take k idxs)"

definition session_id :: "entropy \<Rightarrow> string" where
  "session_id e =
     ''CACHE_BYPASS_'' @ str_int (time_ms e) @ ''_'' @ random_choices population 13 (choice_indices e)"

definition cache_breaker :: "entropy \<Rightarrow> string" where
  "cache_breaker e =
     ''[Processing Session: '' @ session_id e @ '']'' @ nl
     @ ''[Analysis Timestamp: '' @ isoformat_now e @ '']'' @ nl
     @ ''[Cache Bypass ID: '' @ str_int (randint_value e) @ '']'' @ nl @ nl"

definition add_prompt_variation :: "entropy \<Rightarrow> string \<Rightarrow> string" where
  "add_prompt_variation e base_prompt = cache_breaker e @ base_prompt"

section \<open>The completion service and the other collaborators\<close>

text \<open>
  The part of the service's response that the pipeline reads:
  \<^verbatim>\<open>response.choices[0].message.tool_calls[0].function.arguments\<close>.
\<close>

record tool_call =
  function_name :: string
  function_arguments :: string

record chat_message =
  tool_calls :: "tool_call list option"

record choice =
  message :: chat_message

record completion =
  choices :: "choice list"

text \<open>
  The keyword arguments of \<^verbatim>\<open>client.chat.completions.create\<close>. A message is a pair of
  role and content; \<open>tool_choice\<close> is the name of the function the service is forced to
  call.
\<close>

record request =
  model :: string
  messages :: "(string \<times> string) list"
  tools :: "string list"
  tool_choice :: string
  max_tokens :: nat
  temperature :: json

text \<open>
  The collaborators of one run of the pipeline. None of them is code of
  \<^verbatim>\<open>ai_parser.py\<close>, so each is a parameter, and may raise wherever Python lets it:
  \<^item> \<open>chunker\<close> is \<^verbatim>\<open>chunk_resume_from_bold_headings\<close> of \<^verbatim>\<open>chunk_resume.py\<close>, which
    returns a dictionary from heading to body;
  \<^item> \<open>create\<close> is the call of the completion service;
  \<^item> \<open>loads\<close> is \<^verbatim>\<open>json.loads\<close>;
  \<^item> \<open>rnd\<close> is what \<^verbatim>\<open>add_prompt_variation\<close> reads from the clock and the generator;
  \<^item> \<open>now k\<close> is \<^verbatim>\<open>datetime.now().isoformat()\<close> as read for the event yielded at
    position \<open>k\<close> of the run.
  The helpers of \<^verbatim>\<open>token_logger.py\<close> (\<^verbatim>\<open>start_timing\<close>, \<^verbatim>\<open>log_token_usage\<close>,
  \<^verbatim>\<open>log_cache_analysis\<close>) and the calls of \<^verbatim>\<open>logger\<close> only write to the log; their
  results are not used by the pipeline, and they are taken to return normally.
\<close>

record env =
  chunker :: "string \<Rightarrow> exn + (string \<times> string) list"
  create :: "request \<Rightarrow> exn + completion"
  loads :: "string \<Rightarrow> exn + json"
  rnd :: entropy
  now :: "nat \<Rightarrow> string"

text \<open>
  What a run does that is visible outside of it, in the order in which it happens: the
  events it yields, the call of the chunker, and the calls of the completion service.
\<close>

datatype action =
    Yield json
  | ChunkerRun string
  | ServiceCall request

section \<open>extract\_data\_from\_text\<close>

definition task_prompt :: "string \<Rightarrow> string" where
  "task_prompt text =
     ''CRITICAL TASK: Parse the following resume text and extract EVERY SINGLE DETAIL without omission.''
     @ nl @ nl @ ''Resume text:'' @ nl @ text"

definition extraction_request :: "entropy \<Rightarrow> string \<Rightarrow> request" where
  "extraction_request e text =
     \<lparr>model = ''gpt-4o-mini'',
      messages = [(''system'', get_system_prompt),
                  (''user'', add_prompt_variation e (task_prompt text))],
      tools = [resume_function_name],
      tool_choice = ''parse_resume'',
      max_tokens = 16384,
      temperature = JFloat ''0.1''\<rparr>"

text \<open>
  \<^verbatim>\<open>response.choices[0].message.tool_calls[0].function.arguments\<close>: indexing an empty
  list raises \<^verbatim>\<open>IndexError\<close>, indexing \<^verbatim>\<open>None\<close> raises \<^verbatim>\<open>TypeError\<close>.
\<close>

definition tool_call_arguments :: "completion \<Rightarrow> exn + string" where
  "tool_call_arguments response =
     (case choices response of
        [] \<Rightarrow> Inl (IndexError ''list index out of range'')
      | c # _ \<Rightarrow>
          (case tool_calls (message c) of
             None \<Rightarrow> Inl (TypeError ([CHR 0x27] @ ''NoneType'' @ [CHR 0x27] @ '' object is not subscriptable''))
           | Some [] \<Rightarrow> Inl (IndexError ''list index out of range'')
           | Some (t # _) \<Rightarrow> Inr (function_arguments t)))"

text \<open>The outer handler: \<^verbatim>\<open>raise Exception(f"Failed to extract data: {error}")\<close>.\<close>

definition failed_to_extract :: "exn \<Rightarrow> exn" where
  "failed_to_extract error = Exception (''Failed to extract data: '' @ str_exn error)"

text \<open>
  The function returns the service calls it made and its outcome: \<open>Inl\<close> the exception
  it raises, \<open>Inr\<close> the value it returns. The inner handler catches
  \<^verbatim>\<open>json.JSONDecodeError\<close> only; every other exception reaches the outer handler.
\<close>

definition extract_data_from_text :: "env \<Rightarrow> string \<Rightarrow> action list \<times> (exn + json)" where
  "extract_data_from_text env text =
     (let req = extraction_request (rnd env) text in
      ([ServiceCall req],
       (case create env req of
          Inl error \<Rightarrow> Inl (failed_to_extract error)
        | Inr response \<Rightarrow>
            (case tool_call_arguments response of
               Inl error \<Rightarrow> Inl (failed_to_extract error)
             | Inr args \<Rightarrow>
                 (case loads env args of
                    Inr parsed_data \<Rightarrow> Inr parsed_data
                  | Inl (JSONDecodeError m) \<Rightarrow> Inr get_default_resume_structure
                  | Inl error \<Rightarrow> Inl (failed_to_extract error))))))"

section \<open>stream\_resume\_processing\<close>

definition progress_event :: "string \<Rightarrow> json" where
  "progress_event ts = JObject
     [(''type'', JString ''progress''),
      (''message'', JString ''Analyzing resume structure...''),
      (''progress'', JInt 10),
      (''timestamp'', JString ts)]"

definition processing_strategy_event :: "string \<Rightarrow> json" where
  "processing_strategy_event ts = JObject
     [(''type'', JString ''processing_strategy''),
      (''message'', JString ''Processing entire resume...''),
      (''progress'', JInt 45),
      (''timestamp'', JString ts)]"

definition token_usage :: json where
  "token_usage = JObject
     [(''promptTokens'', JInt 0), (''completionTokens'', JInt 0),
      (''totalTokens'', JInt 0), (''cost'', JInt 0)]"

text \<open>The message starts with the check mark U+2705, three bytes in UTF-8.\<close>

definition full_resume_complete_event :: "string \<Rightarrow> json" where
  "full_resume_complete_event ts = JObject
     [(''type'', JString ''full_resume_complete''),
      (''message'', JString ([CHR 0xE2, CHR 0x9C, CHR 0x85] @ '' Resume processed successfully'')),
      (''progress'', JInt 90),
      (''tokenUsage'', token_usage),
      (''timestamp'', JString ts)]"

definition error_event :: "string \<Rightarrow> string \<Rightarrow> json" where
  "error_event msg ts = JObject
     [(''type'', JString ''error''),
      (''message'', JString msg),
      (''timestamp'', JString ts)]"

definition final_data_event :: "json \<Rightarrow> string \<Rightarrow> json" where
  "final_data_event full_resume_data ts = JObject
     [(''type'', JString ''final_data''),
      (''data'', full_resume_data),
      (''message'', JString ''Final resume data ready''),
      (''progress'', JInt 98),
      (''timestamp'', JString ts)]"

definition complete_event :: "string \<Rightarrow> json" where
  "complete_event ts = JObject
     [(''type'', JString ''complete''),
      (''message'', JString ''Resume processing completed successfully!''),
      (''progress'', JInt 100),
      (''timestamp'', JString ts)]"

text \<open>
  The generator, consumed front to back: the list of everything it does. An exception of
  the chunker reaches the outer handler (\<^verbatim>\<open>Processing error\<close>); an exception of
  \<^verbatim>\<open>extract_data_from_text\<close> reaches the inner one (\<^verbatim>\<open>Processing failed\<close>), which
  yields the error event and returns.
\<close>

definition stream_resume_processing :: "env \<Rightarrow> string \<Rightarrow> action list" where
  "stream_resume_processing env extracted_text =
     Yield (progress_event (now env 0)) # ChunkerRun extracted_text #
     (case chunker env extracted_text of
        Inl error \<Rightarrow>
          [Yield (error_event (''Processing error: '' @ str_exn error) (now env 1))]
      | Inr sections \<Rightarrow>
          Yield (processing_strategy_event (now env 1)) #
          (case extract_data_from_text env extracted_text of
             (calls, Inl e) \<Rightarrow>
               calls @ [Yield (error_event (''Processing failed: '' @ str_exn e) (now env 2))]
           | (calls, Inr full_resume_data) \<Rightarrow>
               calls @
               [Yield (full_resume_complete_event (now env 2)),
                Yield (final_data_event full_resume_data (now env 3)),
                Yield (complete_event (now env 4))]))"

text \<open>The events of a run, in emission order.\<close>

fun events :: "action list \<Rightarrow> json list" where
  "events [] = []"
| "events (Yield e # as) = e # events as"
| "events (_ # as) = events as"

fun service_calls :: "action list \<Rightarrow> request list" where
  "service_calls [] = []"
| "service_calls (ServiceCall r # as) = r # service_calls as"
| "service_calls (_ # as) = service_calls as"

text \<open>Python's \<^verbatim>\<open>d.get(k)\<close> on an event.\<close>

definition field :: "json \<Rightarrow> string \<Rightarrow> json option" where
  "field v k = (case v of JObject kvs \<Rightarrow> map_of kvs k | _ \<Rightarrow> None)"

definition event_type :: "json \<Rightarrow> string" where
  "event_type e = (case field e ''type'' of Some (JString s) \<Rightarrow> s | _ \<Rightarrow> [])"

section \<open>A reference decoder for json.loads\<close>

text \<open>
  \<^verbatim>\<open>json.loads\<close> belongs to Python's library. The theorems below hold for every
  behaviour of \<open>loads\<close>; the decoder of this section is the instance at which they are
  evaluated. It follows the grammar that the library's scanner accepts: white space is
  blank, tab, line feed and carriage return; a number is an integer unless it has a
  fraction or an exponent; the constants \<^verbatim>\<open>NaN\<close>, \<^verbatim>\<open>Infinity\<close> and \<^verbatim>\<open>-Infinity\<close>
  are accepted; a string may not contain a raw control character; a key that occurs
  twice keeps its first position and its last value; anything after the value but white
  space is an error. Every syntax error is a \<^verbatim>\<open>JSONDecodeError\<close>, whose message only
  reaches the log. The limits of the interpreter (recursion depth, the number of digits
  of an integer), where the library raises other exceptions, are not part of the
  decoder.
\<close>

definition is_ws :: "char \<Rightarrow> bool" where
  "is_ws c = (c = CHR '' '' \<or> c = CHR 0x09 \<or> c = CHR 0x0A \<or> c = CHR 0x0D)"

definition skip_ws :: "string \<Rightarrow> string" where
  "skip_ws cs = dropWhile is_ws cs"

definition is_digit :: "char \<Rightarrow> bool" where
  "is_digit c = (48 \<le> (of_char c :: nat) \<and> (of_char c :: nat) \<le> 57)"

definition hex_digit :: "char \<Rightarrow> nat option" where
  "hex_digit c =
     (let n = (of_char c :: nat) in
      if 48 \<le> n \<and> n \<le> 57 then Some (n - 48)
      else if 97 \<le> n \<and> n \<le> 102 then Some (n - 87)
      else if 65 \<le> n \<and> n \<le> 70 then Some (n - 55)
      else None)"

text \<open>The four hexadecimal digits of a \<^verbatim>\<open>\uXXXX\<close> escape.\<close>

definition decode_uXXXX :: "string \<Rightarrow> nat option" where
  "decode_uXXXX cs =
     (case cs of
        [a, b, c, d] \<Rightarrow>
          (case (hex_digit a, hex_digit b, hex_digit c, hex_digit d) of
             (Some x, Some y, Some z, Some w) \<Rightarrow> Some (((x * 16 + y) * 16 + z) * 16 + w)
           | _ \<Rightarrow> None)
      | _ \<Rightarrow> None)"

text \<open>The UTF-8 bytes of a code point.\<close>

definition utf8 :: "nat \<Rightarrow> string" where
  "utf8 cp =
     (if cp < 0x80 then [char_of cp]
      else if cp < 0x800 then [char_of (0xC0 + cp div 64), char_of (0x80 + cp mod 64)]
      else if cp < 0x10000 then
        [char_of (0xE0 + cp div 4096), char_of (0x80 + (cp div 64) mod 64),
         char_of (0x80 + cp mod 64)]
      else
        [char_of (0xF0 + cp div 262144), char_of (0x80 + (cp div 4096) mod 64),
         char_of (0x80 + (cp div 64) mod 64), char_of (0x80 + cp mod 64)])"

definition backslash :: "char \<Rightarrow> char option" where
  "backslash c =
     (if c = CHR 0x22 then Some (CHR 0x22)
      else if c = CHR 0x5C then Some (CHR 0x5C)
      else if c = CHR ''/'' then Some (CHR ''/'')
      else if c = CHR ''b'' then Some (CHR 0x08)
      else if c = CHR ''f'' then Some (CHR 0x0C)
      else if c = CHR ''n'' then Some (CHR 0x0A)
      else if c = CHR ''r'' then Some (CHR 0x0D)
      else if c = CHR ''t'' then Some (CHR 0x09)
      else None)"

text \<open>
  The body of a string, after the opening quote: the decoded string and the text after
  the closing quote. A high surrogate followed by the escape of a low surrogate (and at
  least one more character) is joined with it.
\<close>

function scanstring :: "string \<Rightarrow> string \<Rightarrow> (string \<times> string) option" where
  "scanstring acc [] = None"
| "scanstring acc (c # cs) =
     (if c = CHR 0x22 then Some (acc, cs)
      else if (of_char c :: nat) < 0x20 then None
      else if c \<noteq> CHR 0x5C then scanstring (acc @ [c]) cs
      else
        (case cs of
           [] \<Rightarrow> None
         | esc # rest \<Rightarrow>
             if esc \<noteq> CHR ''u'' then
               (case backslash esc of
                  None \<Rightarrow> None
                | Some d \<Rightarrow> scanstring (acc @ [d]) rest)
             else
               (case decode_uXXXX (take 4 rest) of
                  None \<Rightarrow> None
                | Some uni \<Rightarrow>
                    (let rest' = drop 4 rest in
                     if 0xD800 \<le> uni \<and> uni \<le> 0xDBFF \<and> 7 \<le> length rest'
                        \<and> take 2 rest' = [CHR 0x5C, CHR ''u''] then
                       (case decode_uXXXX (take 4 (drop 2 rest')) of
                          None \<Rightarrow> None
                        | Some uni2 \<Rightarrow>
                            if 0xDC00 \<le> uni2 \<and> uni2 \<le> 0xDFFF then
                              scanstring
                                (acc @ utf8 (0x10000 + (uni - 0xD800) * 1024 + (uni2 - 0xDC00)))
                                (drop 6 rest')
                            else scanstring (acc @ utf8 uni) rest')
                     else scanstring (acc @ utf8 uni) rest'))))"
  by pat_completeness auto
termination
  by (relation "measure (\<lambda>(acc, cs). length cs)") auto

declare scanstring.simps [simp del]

definition int_of_digits :: "string \<Rightarrow> int" where
  "int_of_digits ds = foldl (\<lambda>a c. 10 * a + ((of_char c :: int) - 48)) 0 ds"

text \<open>
  The number at the start of the text, if there is one: the regular expression
  \<^verbatim>\<open>(-?(?:0|[1-9][0-9]*))(\.[0-9]+)?([eE][-+]?[0-9]+)?\<close>. The three functions give the
  digits of the integer part, the fraction with its point and the exponent with its
  letter, each empty when the text does not start with one.
\<close>

definition number_integer :: "string \<Rightarrow> string" where
  "number_integer cs =
     (case cs of
        [] \<Rightarrow> []
      | d # r \<Rightarrow> if d = CHR ''0'' then [d] else takeWhile is_digit cs)"

definition number_frac :: "string \<Rightarrow> string" where
  "number_frac cs =
     (case cs of
        [] \<Rightarrow> []
      | p # r \<Rightarrow>
          if p = CHR ''.'' \<and> r \<noteq> [] \<and> is_digit (hd r) then p # takeWhile is_digit r else [])"

definition number_exp :: "string \<Rightarrow> string" where
  "number_exp cs =
     (case cs of
        [] \<Rightarrow> []
      | e # r \<Rightarrow>
          if e = CHR ''e'' \<or> e = CHR ''E'' then
            (let sign = (if r \<noteq> [] \<and> (hd r = CHR ''+'' \<or> hd r = CHR ''-'') then [hd r] else []);
                 r' = drop (length sign) r in
             if r' \<noteq> [] \<and> is_digit (hd r') then e # sign @ takeWhile is_digit r' else [])
          else [])"

definition match_number :: "string \<Rightarrow> (json \<times> string) option" where
  "match_number cs =
     (let sign = (if cs \<noteq> [] \<and> hd cs = CHR ''-'' then ''-'' else []);
          r0 = drop (length sign) cs;
          integer = number_integer r0;
          r1 = drop (length integer) r0;
          frac = number_frac r1;
          r2 = drop (length frac) r1;
          exp = number_exp r2;
          r3 = drop (length exp) r2 in
      if integer = [] then None
      else if frac = [] \<and> exp = [] then
        Some (JInt (if sign = [] then int_of_digits integer else - int_of_digits integer), r3)
      else Some (JFloat (sign @ integer @ frac @ exp), r3))"

text \<open>Storing a key in a dictionary: a key already there keeps its position.\<close>

fun dict_set :: "string \<Rightarrow> json \<Rightarrow> (string \<times> json) list \<Rightarrow> (string \<times> json) list" where
  "dict_set k v [] = [(k, v)]"
| "dict_set k v ((k', v') # kvs) =
     (if k = k' then (k, v) # kvs else (k', v') # dict_set k v kvs)"

text \<open>A value that is neither a string, an object nor an array.\<close>

definition scan_atom :: "string \<Rightarrow> (json \<times> string) option" where
  "scan_atom cs =
     (if take 4 cs = ''null'' then Some (JNull, drop 4 cs)
      else if take 4 cs = ''true'' then Some (JBool True, drop 4 cs)
      else if take 5 cs = ''false'' then Some (JBool False, drop 5 cs)
      else
        (case match_number cs of
           Some vr \<Rightarrow> Some vr
         | None \<Rightarrow>
             if take 3 cs = ''NaN'' then Some (JFloat ''NaN'', drop 3 cs)
             else if take 8 cs = ''Infinity'' then Some (JFloat ''Infinity'', drop 8 cs)
             else if take 9 cs = ''-Infinity'' then Some (JFloat ''-Infinity'', drop 9 cs)
             else None))"

text \<open>
  The scanner for one value, for the elements of an array after its bracket, and for the
  members of an object after its brace. The first argument bounds the nesting of the
  calls.
\<close>

fun parse_value :: "nat \<Rightarrow> string \<Rightarrow> (json \<times> string) option"
  and parse_array :: "nat \<Rightarrow> json list \<Rightarrow> string \<Rightarrow> (json \<times> string) option"
  and parse_object :: "nat \<Rightarrow> (string \<times> json) list \<Rightarrow> string \<Rightarrow> (json \<times> string) option"
where
  "parse_value 0 cs = None"
| "parse_value (Suc n) cs =
     (case cs of
        [] \<Rightarrow> None
      | c # rest \<Rightarrow>
          if c = CHR 0x22 then
            (case scanstring [] rest of None \<Rightarrow> None | Some (s, r) \<Rightarrow> Some (JString s, r))
          else if c = CHR ''{'' then
            (case skip_ws rest of
               [] \<Rightarrow> None
             | d # r \<Rightarrow> if d = CHR ''}'' then Some (JObject [], r) else parse_object n [] (d # r))
          else if c = CHR ''['' then
            (case skip_ws rest of
               [] \<Rightarrow> None
             | d # r \<Rightarrow> if d = CHR '']'' then Some (JArray [], r) else parse_array n [] (d # r))
          else scan_atom cs)"
| "parse_array 0 acc cs = None"
| "parse_array (Suc n) acc cs =
     (case parse_value n cs of
        None \<Rightarrow> None
      | Some (v, r) \<Rightarrow>
          (case skip_ws r of
             [] \<Rightarrow> None
           | d # r' \<Rightarrow>
               if d = CHR '']'' then Some (JArray (acc @ [v]), r')
               else if d = CHR '','' then parse_array n (acc @ [v]) (skip_ws r')
               else None))"
| "parse_object 0 acc cs = None"
| "parse_object (Suc n) acc cs =
     (case cs of
        [] \<Rightarrow> None
      | c # rest \<Rightarrow>
          if c \<noteq> CHR 0x22 then None
          else
            (case scanstring [] rest of
               None \<Rightarrow> None
             | Some (key, r) \<Rightarrow>
                 (case skip_ws r of
                    [] \<Rightarrow> None
                  | d # r1 \<Rightarrow>
                      if d \<noteq> CHR '':'' then None
                      else
                        (case parse_value n (skip_ws r1) of
                           None \<Rightarrow> None
                         | Some (v, r2) \<Rightarrow>
                             (case skip_ws r2 of
                                [] \<Rightarrow> None
                              | e # r3 \<Rightarrow>
                                  if e = CHR ''}'' then Some (JObject (dict_set key v acc), r3)
                                  else if e = CHR '','' then
                                    parse_object n (dict_set key v acc) (skip_ws r3)
                                  else None)))))"

definition json_loads :: "string \<Rightarrow> exn + json" where
  "json_loads s =
     (case parse_value (2 * length s + 2) (skip_ws s) of
        None \<Rightarrow> Inl (JSONDecodeError ''Expecting value'')
      | Some (v, r) \<Rightarrow>
          if skip_ws r = [] then Inr v else Inl (JSONDecodeError ''Extra data''))"

section \<open>Observations on a run\<close>

text \<open>The progress values that the events of a run carry, in emission order.\<close>

definition progress_of :: "json \<Rightarrow> int option" where
  "progress_of e = (case field e ''progress'' of Some (JInt p) \<Rightarrow> Some p | _ \<Rightarrow> None)"

definition progress_values :: "json list \<Rightarrow> int list" where
  "progress_values evs = List.map_filter progress_of evs"

definition is_terminal :: "json \<Rightarrow> bool" where
  "is_terminal e = (event_type e = ''complete'' \<or> event_type e = ''error'')"

section \<open>Concrete collaborators\<close>

text \<open>
  A response of the service that carries one forced call of \<^verbatim>\<open>parse_resume\<close> with the
  given arguments, a service that returns it and one that raises, and collaborators to
  evaluate the pipeline with: a chunker that finds one section, the reference decoder,
  fixed draws and a clock that shows the position of the event.
\<close>

definition response_with :: "string \<Rightarrow> completion" where
  "response_with args =
     \<lparr>choices =
        [\<lparr>message = \<lparr>tool_calls =
           Some [\<lparr>function_name = ''parse_resume'', function_arguments = args\<rparr>]\<rparr>\<rparr>]\<rparr>"

definition sample_entropy :: entropy where
  "sample_entropy =
     \<lparr>time_ms = 1700000000123,
      choice_indices = [0, 1, 2, 3, 4, 5, 6, 7, 8, 9, 26, 27, 35],
      isoformat_now = ''2023-11-14T22:13:20.123456'',
      randint_value = 123456\<rparr>"

definition chunker_finding :: "(string \<times> string) list \<Rightarrow> string \<Rightarrow> exn + (string \<times> string) list" where
  "chunker_finding sections text = Inr sections"

definition service_returning :: "string \<Rightarrow> request \<Rightarrow> exn + completion" where
  "service_returning args req = Inr (response_with args)"

definition service_failing :: "exn \<Rightarrow> request \<Rightarrow> exn + completion" where
  "service_failing error req = Inl error"

definition sample_env :: "(request \<Rightarrow> exn + completion) \<Rightarrow> env" where
  "sample_env service =
     \<lparr>chunker = chunker_finding [(''Experience'', ''Job A'')],
      create = service,
      loads = json_loads,
      rnd = sample_entropy,
      now = (\<lambda>k. ''2023-11-14T22:13:2'' @ str_int (int k))\<rparr>"

definition sample_text :: string where
  "sample_text = ''Jane Doe'' @ nl @ ''**Experience**'' @ nl @ ''Job A''"

text \<open>The draws of a second call that reads the same clock values and random numbers.\<close>

definition repeated_entropy :: entropy where
  "repeated_entropy =
     \<lparr>time_ms = 1700000000123,
      choice_indices = [0, 1, 2, 3, 4, 5, 6, 7, 8, 9, 26, 27, 35],
      isoformat_now = ''2023-11-14T22:13:20.123456'',
      randint_value = 123456\<rparr>"

text \<open>The draws of a call at the same millisecond whose random characters differ.\<close>

definition fresh_entropy :: entropy where
  "fresh_entropy =
     \<lparr>time_ms = 1700000000123,
      choice_indices = [35, 0, 1, 2, 3, 4, 5, 6, 7, 8, 9, 26, 27],
      isoformat_now = ''2023-11-14T22:13:20.123456'',
      randint_value = 123456\<rparr>"

section \<open>The text chunker\<close>

record resume_section =
  heading :: string
  body :: string

text \<open>Python's \<^verbatim>\<open>text.split("\n")\<close>.\<close>

fun split_lines :: "string \<Rightarrow> string list" where
  "split_lines [] = [[]]"
| "split_lines (c # cs) =
     (if c = CHR 0x0A then [] # split_lines cs
      else (case split_lines cs of [] \<Rightarrow> [[c]] | l # ls \<Rightarrow> (c # l) # ls))"

text \<open>A line in bold: two asterisks, a heading that is not empty, two asterisks.\<close>

definition is_bold_heading :: "string \<Rightarrow> bool" where
  "is_bold_heading line =
     (4 < length line \<and> take 2 line = ''**'' \<and> drop (length line - 2) line = ''**'')"

definition heading_text :: "string \<Rightarrow> string" where
  "heading_text line = take (length line - 4) (drop 2 line)"

fun close_section :: "(string \<times> string list) option \<Rightarrow> resume_section list" where
  "close_section None = []"
| "close_section (Some (h, ls)) = [\<lparr>heading = h, body = join nl ls\<rparr>]"

fun chunk_lines :: "(string \<times> string list) option \<Rightarrow> string list \<Rightarrow> resume_section list" where
  "chunk_lines cur [] = close_section cur"
| "chunk_lines cur (l # ls) =
     (if is_bold_heading l then close_section cur @ chunk_lines (Some (heading_text l, [])) ls
      else (case cur of
              None \<Rightarrow> chunk_lines None ls
            | Some (h, b) \<Rightarrow> chunk_lines (Some (h, b @ [l])) ls))"

text \<open>
  Modelled from the spec: \<^verbatim>\<open>chunk_resume_from_bold_headings\<close> of
  \<^verbatim>\<open>backend/utils/chunk_resume.py\<close>, which is not among the sources. The lines in bold
  are the boundaries; a section is the heading of such a line and the lines up to the
  next one, in the order of the text and with no heading merged with another. Of the two
  policies that the specification allows for the text before the first heading, this
  definition discards it. A text with no heading is one section that spans the whole
  text; the specification gives that section no heading, and here it is the empty
  string.
\<close>

definition chunk_resume_from_bold_headings :: "string \<Rightarrow> resume_section list" where
  "chunk_resume_from_bold_headings text =
     (let sections = chunk_lines None (split_lines text) in
      if sections = [] then [\<lparr>heading = [], body = text\<rparr>] else sections)"

section \<open>The reference decoder and its fuel\<close>

text \<open>
  Every scanner consumes at least one character when it succeeds, so the calls cannot
  nest deeper than twice the length of the text, and the fuel that \<open>json_loads\<close> gives
  is enough: more fuel does not change the result.
\<close>

lemma skip_ws_length: "length (skip_ws cs) \<le> length cs"
  by (simp add: skip_ws_def length_dropWhile_le)

lemma scanstring_shorter:
  "scanstring acc cs = Some (s, r) \<Longrightarrow> length r < length cs"
proof (induction "length cs" arbitrary: acc cs s r rule: less_induct)
  case less
  show ?case
  proof (cases cs)
    case Nil
    with less.prems show ?thesis by (simp add: scanstring.simps)
  next
    case (Cons c cs')
    have step: "length r' < length cs"
      if "scanstring acc' ys = Some (s', r')" and "length ys < length cs" for acc' ys s' r'
      using less.hyps [OF that(2) that(1)] that(2) by simp
    have len: "length cs = Suc (length cs')"
      using Cons by simp
    from less.prems Cons have "scanstring acc (c # cs') = Some (s, r)"
      by simp
    then show ?thesis
      apply (subst (asm) scanstring.simps)
      apply (auto split: if_splits list.splits option.splits simp: Let_def len dest!: step)
      done
  qed
qed


lemma number_integer_length: "length (number_integer cs) \<le> length cs"
  by (cases cs) (simp_all add: number_integer_def length_takeWhile_le le_SucI)

lemma match_number_shorter:
  assumes "match_number cs = Some (v, r)"
  shows "length r < length cs"
proof -
  define sign where "sign = (if cs \<noteq> [] \<and> hd cs = CHR ''-'' then ''-'' else [])"
  define r0 where "r0 = drop (length sign) cs"
  define integer where "integer = number_integer r0"
  from assms have nonempty: "integer \<noteq> []"
    by (auto simp: match_number_def Let_def sign_def r0_def integer_def split: if_splits)
  from assms have "length r \<le> length r0 - length integer"
    unfolding match_number_def Let_def sign_def [symmetric] r0_def [symmetric]
      integer_def [symmetric]
    by (auto split: if_splits)
  moreover have "length integer \<le> length r0"
    by (simp add: integer_def number_integer_length)
  moreover have "0 < length integer"
    using nonempty by simp
  moreover have "length r0 \<le> length cs"
    by (simp add: r0_def)
  ultimately show ?thesis
    by linarith
qed


lemma skip_ws_Cons_shorter: "skip_ws cs = d # r \<Longrightarrow> length r < length cs"
  using skip_ws_length [of cs] by simp

lemma literal_nonempty: "take k cs = c # lit \<Longrightarrow> 0 < k \<and> 0 < length cs"
  by (cases k; cases cs) auto

lemma scan_atom_shorter:
  assumes "scan_atom cs = Some (v, r)"
  shows "length r < length cs"
  using assms
  by (auto simp: scan_atom_def split: if_splits option.splits
      dest!: literal_nonempty match_number_shorter)

lemma parse_value_step_shorter:
  assumes a: "\<forall>acc cs v r. parse_array n acc cs = Some (v, r) \<longrightarrow> length r < length cs"
    and ob: "\<forall>kvs cs v r. parse_object n kvs cs = Some (v, r) \<longrightarrow> length r < length cs"
    and res: "parse_value (Suc n) cs = Some (v, r)"
  shows "length r < length cs"
proof (cases cs)
  case Nil
  with res show ?thesis by simp
next
  case (Cons c rest)
  from res Cons consider
      (str) s where "scanstring [] rest = Some (s, r)"
    | (empty) d where "skip_ws rest = d # r"
    | (obj) d r0 where "skip_ws rest = d # r0" "parse_object n [] (d # r0) = Some (v, r)"
    | (arr) d r0 where "skip_ws rest = d # r0" "parse_array n [] (d # r0) = Some (v, r)"
    | (atom) "scan_atom cs = Some (v, r)"
    by (auto split: if_splits option.splits list.splits prod.splits)
  then show ?thesis
  proof cases
    case str
    from scanstring_shorter [OF this] Cons show ?thesis by simp
  next
    case empty
    from skip_ws_Cons_shorter [OF this] Cons show ?thesis by simp
  next
    case obj
    from skip_ws_Cons_shorter [OF obj(1)] ob obj(2) Cons show ?thesis by fastforce
  next
    case arr
    from skip_ws_Cons_shorter [OF arr(1)] a arr(2) Cons show ?thesis by fastforce
  next
    case atom
    then show ?thesis by (rule scan_atom_shorter)
  qed
qed

lemma parse_array_step_shorter:
  assumes v: "\<forall>cs v r. parse_value n cs = Some (v, r) \<longrightarrow> length r < length cs"
    and a: "\<forall>acc cs v r. parse_array n acc cs = Some (v, r) \<longrightarrow> length r < length cs"
    and res: "parse_array (Suc n) acc cs = Some (v, r)"
  shows "length r < length cs"
proof -
  have IHv: "length r < length cs" if "parse_value n cs = Some (v, r)" for cs v r
    using v that by blast
  have IHa: "length r < length cs" if "parse_array n acc cs = Some (v, r)" for acc cs v r
    using a that by blast
  from res obtain x r1 d r2 where val: "parse_value n cs = Some (x, r1)"
    and ws: "skip_ws r1 = d # r2"
    and alt: "r = r2 \<or> parse_array n (acc @ [x]) (skip_ws r2) = Some (v, r)"
    by (auto split: if_splits option.splits list.splits prod.splits)
  from alt have "length r \<le> length r2"
  proof
    assume "parse_array n (acc @ [x]) (skip_ws r2) = Some (v, r)"
    from IHa [OF this] skip_ws_length [of r2] show ?thesis by simp
  qed simp
  with IHv [OF val] skip_ws_Cons_shorter [OF ws] show ?thesis by simp
qed

lemma parse_object_step_shorter:
  assumes v: "\<forall>cs v r. parse_value n cs = Some (v, r) \<longrightarrow> length r < length cs"
    and ob: "\<forall>kvs cs v r. parse_object n kvs cs = Some (v, r) \<longrightarrow> length r < length cs"
    and res: "parse_object (Suc n) kvs cs = Some (v, r)"
  shows "length r < length cs"
proof -
  have IHv: "length r < length cs" if "parse_value n cs = Some (v, r)" for cs v r
    using v that by blast
  have IHo: "length r < length cs" if "parse_object n kvs cs = Some (v, r)" for kvs cs v r
    using ob that by blast
  from res obtain c rest key r0 d r1 x r2 e r3 where cs: "cs = c # rest"
    and key: "scanstring [] rest = Some (key, r0)"
    and ws1: "skip_ws r0 = d # r1"
    and val: "parse_value n (skip_ws r1) = Some (x, r2)"
    and ws2: "skip_ws r2 = e # r3"
    and alt: "r = r3 \<or> parse_object n (dict_set key x kvs) (skip_ws r3) = Some (v, r)"
    by (auto split: if_splits option.splits list.splits prod.splits)
  from alt have "length r \<le> length r3"
  proof
    assume "parse_object n (dict_set key x kvs) (skip_ws r3) = Some (v, r)"
    from IHo [OF this] skip_ws_length [of r3] show ?thesis by simp
  qed simp
  with scanstring_shorter [OF key] skip_ws_Cons_shorter [OF ws1] IHv [OF val]
    skip_ws_length [of r1] skip_ws_Cons_shorter [OF ws2] cs
  show ?thesis by simp
qed

lemma parse_shorter_all:
  "(\<forall>cs v r. parse_value n cs = Some (v, r) \<longrightarrow> length r < length cs)
   \<and> (\<forall>acc cs v r. parse_array n acc cs = Some (v, r) \<longrightarrow> length r < length cs)
   \<and> (\<forall>kvs cs v r. parse_object n kvs cs = Some (v, r) \<longrightarrow> length r < length cs)"
proof (induction n)
  case 0
  show ?case by simp
next
  case (Suc n)
  then have v: "\<forall>cs v r. parse_value n cs = Some (v, r) \<longrightarrow> length r < length cs"
    and a: "\<forall>acc cs v r. parse_array n acc cs = Some (v, r) \<longrightarrow> length r < length cs"
    and ob: "\<forall>kvs cs v r. parse_object n kvs cs = Some (v, r) \<longrightarrow> length r < length cs"
    by simp_all
  show ?case
  proof (intro conjI allI impI)
    fix cs w r
    assume "parse_value (Suc n) cs = Some (w, r)"
    with a ob show "length r < length cs"
      by (rule parse_value_step_shorter)
  next
    fix acc cs w r
    assume "parse_array (Suc n) acc cs = Some (w, r)"
    with v a show "length r < length cs"
      by (rule parse_array_step_shorter)
  next
    fix kvs cs w r
    assume "parse_object (Suc n) kvs cs = Some (w, r)"
    with v ob show "length r < length cs"
      by (rule parse_object_step_shorter)
  qed
qed

lemma parse_value_shorter: "parse_value n cs = Some (v, r) \<Longrightarrow> length r < length cs"
  using parse_shorter_all [of n] by blast


lemma parse_value_step_stable:
  assumes a: "\<forall>acc cs. 2 * length cs + 2 \<le> n \<longrightarrow> parse_array (n + k) acc cs = parse_array n acc cs"
    and ob: "\<forall>kvs cs. 2 * length cs + 2 \<le> n \<longrightarrow> parse_object (n + k) kvs cs = parse_object n kvs cs"
    and bound: "2 * length cs + 1 \<le> Suc n"
  shows "parse_value (Suc n + k) cs = parse_value (Suc n) cs"
proof (cases cs)
  case Nil
  then show ?thesis by simp
next
  case (Cons c rest)
  have enough: "2 * length (d # r0) + 2 \<le> n" if "skip_ws rest = d # r0" for d r0
    using skip_ws_Cons_shorter [OF that] bound Cons by simp
  have key_o: "parse_object (n + k) [] (d # r0) = parse_object n [] (d # r0)"
    if "skip_ws rest = d # r0" for d r0
    using ob enough [OF that] by blast
  have key_a: "parse_array (n + k) [] (d # r0) = parse_array n [] (d # r0)"
    if "skip_ws rest = d # r0" for d r0
    using a enough [OF that] by blast
  show ?thesis
    by (simp add: Cons key_o key_a split: list.splits)
qed

lemma parse_array_step_stable:
  assumes v: "\<forall>cs. 2 * length cs + 1 \<le> n \<longrightarrow> parse_value (n + k) cs = parse_value n cs"
    and a: "\<forall>acc cs. 2 * length cs + 2 \<le> n \<longrightarrow> parse_array (n + k) acc cs = parse_array n acc cs"
    and bound: "2 * length cs + 2 \<le> Suc n"
  shows "parse_array (Suc n + k) acc cs = parse_array (Suc n) acc cs"
proof -
  have val: "parse_value (n + k) cs = parse_value n cs"
    using v bound by simp
  show ?thesis
  proof (cases "parse_value n cs")
    case None
    then show ?thesis by (simp add: val)
  next
    case (Some p)
    obtain x r1 where p: "p = (x, r1)" by (cases p)
    from Some p have l1: "length r1 < length cs"
      using parse_value_shorter by simp
    show ?thesis
    proof (cases "skip_ws r1")
      case Nil
      then show ?thesis by (simp add: val Some p)
    next
      case (Cons d r2)
      from skip_ws_Cons_shorter [OF Cons] skip_ws_length [of r2] l1 bound
      have "2 * length (skip_ws r2) + 2 \<le> n"
        by simp
      with a have "parse_array (n + k) (acc @ [x]) (skip_ws r2) = parse_array n (acc @ [x]) (skip_ws r2)"
        by blast
      then show ?thesis by (simp add: val Some p Cons)
    qed
  qed
qed

lemma parse_object_step_stable:
  assumes v: "\<forall>cs. 2 * length cs + 1 \<le> n \<longrightarrow> parse_value (n + k) cs = parse_value n cs"
    and ob: "\<forall>kvs cs. 2 * length cs + 2 \<le> n \<longrightarrow> parse_object (n + k) kvs cs = parse_object n kvs cs"
    and bound: "2 * length cs + 2 \<le> Suc n"
  shows "parse_object (Suc n + k) kvs cs = parse_object (Suc n) kvs cs"
proof (cases cs)
  case Nil
  then show ?thesis by simp
next
  case cs: (Cons c rest)
  show ?thesis
  proof (cases "scanstring [] rest")
    case None
    then show ?thesis by (simp add: cs)
  next
    case (Some p)
    obtain key r0 where p: "p = (key, r0)" by (cases p)
    from Some p have l0: "length r0 < length rest"
      using scanstring_shorter by simp
    show ?thesis
    proof (cases "skip_ws r0")
      case Nil
      then show ?thesis by (simp add: cs Some p)
    next
      case colon: (Cons d r1)
      from skip_ws_Cons_shorter [OF colon] skip_ws_length [of r1] l0 bound cs
      have l1: "length (skip_ws r1) < length rest" and "2 * length (skip_ws r1) + 1 \<le> n"
        by simp_all
      with v have val: "parse_value (n + k) (skip_ws r1) = parse_value n (skip_ws r1)"
        by blast
      show ?thesis
      proof (cases "parse_value n (skip_ws r1)")
        case None
        then show ?thesis by (simp add: cs Some p colon val)
      next
        case member: (Some q)
        obtain x r2 where q: "q = (x, r2)" by (cases q)
        from member q have l2: "length r2 < length (skip_ws r1)"
          using parse_value_shorter by simp
        show ?thesis
        proof (cases "skip_ws r2")
          case Nil
          then show ?thesis by (simp add: cs Some p colon val member q)
        next
          case sep: (Cons e r3)
          from skip_ws_Cons_shorter [OF sep] skip_ws_length [of r3] l2 l1 bound cs
          have "2 * length (skip_ws r3) + 2 \<le> n"
            by simp
          with ob have "parse_object (n + k) (dict_set key x kvs) (skip_ws r3)
              = parse_object n (dict_set key x kvs) (skip_ws r3)"
            by blast
          then show ?thesis by (simp add: cs Some p colon val member q sep)
        qed
      qed
    qed
  qed
qed

lemma fuel_stable_all:
  "(\<forall>cs. 2 * length cs + 1 \<le> n \<longrightarrow> parse_value (n + k) cs = parse_value n cs)
   \<and> (\<forall>acc cs. 2 * length cs + 2 \<le> n \<longrightarrow> parse_array (n + k) acc cs = parse_array n acc cs)
   \<and> (\<forall>kvs cs. 2 * length cs + 2 \<le> n \<longrightarrow> parse_object (n + k) kvs cs = parse_object n kvs cs)"
proof (induction n)
  case 0
  show ?case by simp
next
  case (Suc n)
  then have v: "\<forall>cs. 2 * length cs + 1 \<le> n \<longrightarrow> parse_value (n + k) cs = parse_value n cs"
    and a: "\<forall>acc cs. 2 * length cs + 2 \<le> n \<longrightarrow> parse_array (n + k) acc cs = parse_array n acc cs"
    and ob: "\<forall>kvs cs. 2 * length cs + 2 \<le> n \<longrightarrow> parse_object (n + k) kvs cs = parse_object n kvs cs"
    by simp_all
  show ?case
  proof (intro conjI allI impI)
    fix cs :: string
    assume "2 * length cs + 1 \<le> Suc n"
    with a ob show "parse_value (Suc n + k) cs = parse_value (Suc n) cs"
      by (rule parse_value_step_stable)
  next
    fix acc and cs :: string
    assume "2 * length cs + 2 \<le> Suc n"
    with v a show "parse_array (Suc n + k) acc cs = parse_array (Suc n) acc cs"
      by (rule parse_array_step_stable)
  next
    fix kvs and cs :: string
    assume "2 * length cs + 2 \<le> Suc n"
    with v ob show "parse_object (Suc n + k) kvs cs = parse_object (Suc n) kvs cs"
      by (rule parse_object_step_stable)
  qed
qed

lemma json_loads_fuel:
  "parse_value (2 * length s + 2 + k) (skip_ws s) = parse_value (2 * length s + 2) (skip_ws s)"
proof -
  have "2 * length (skip_ws s) + 1 \<le> 2 * length s + 2"
    using skip_ws_length [of s] by simp
  with fuel_stable_all [of "2 * length s + 2" k] show ?thesis
    by blast
qed

section \<open>Facts about extract\_data\_from\_text\<close>

lemma extract_calls:
  "fst (extract_data_from_text env text) = [ServiceCall (extraction_request (rnd env) text)]"
  by (simp add: extract_data_from_text_def Let_def)

lemma extract_service_failure:
  "create env (extraction_request (rnd env) text) = Inl err \<Longrightarrow>
   snd (extract_data_from_text env text) = Inl (failed_to_extract err)"
  by (simp add: extract_data_from_text_def Let_def)

lemma extract_decoded:
  "create env (extraction_request (rnd env) text) = Inr response \<Longrightarrow>
   tool_call_arguments response = Inr args \<Longrightarrow>
   loads env args = Inr v \<Longrightarrow>
   snd (extract_data_from_text env text) = Inr v"
  by (simp add: extract_data_from_text_def Let_def)

lemma extract_decode_error:
  "create env (extraction_request (rnd env) text) = Inr response \<Longrightarrow>
   tool_call_arguments response = Inr args \<Longrightarrow>
   loads env args = Inl (JSONDecodeError m) \<Longrightarrow>
   snd (extract_data_from_text env text) = Inr get_default_resume_structure"
  by (simp add: extract_data_from_text_def Let_def)

lemma default_has_required_keys: "has_required_keys get_default_resume_structure"
  by (simp add: has_required_keys_def get_default_resume_structure_def is_object_def keys_def
      resume_function_required_def)

lemma default_all_fields_blank: "all_fields_blank get_default_resume_structure"
  by (simp add: all_fields_blank_def get_default_resume_structure_def is_blank_def)

lemma default_keys: "keys get_default_resume_structure = map fst resume_function_properties"
  by (simp add: keys_def get_default_resume_structure_def resume_function_properties_def)

lemma extract_returns_cases:
  assumes "snd (extract_data_from_text env text) = Inr v"
  shows "\<exists>response args.
           create env (extraction_request (rnd env) text) = Inr response \<and>
           tool_call_arguments response = Inr args \<and>
           (loads env args = Inr v \<or>
            (\<exists>m. loads env args = Inl (JSONDecodeError m)) \<and> v = get_default_resume_structure)"
  using assms
  by (auto simp: extract_data_from_text_def Let_def split: sum.splits exn.splits)

lemma extract_raises_cases:
  assumes "snd (extract_data_from_text env text) = Inl e"
  shows "\<exists>err. e = failed_to_extract err"
  using assms
  by (auto simp: extract_data_from_text_def Let_def split: sum.splits exn.splits)

lemma tool_call_arguments_response_with: "tool_call_arguments (response_with args) = Inr args"
  by (simp add: tool_call_arguments_def response_with_def)

section \<open>Facts about stream\_resume\_processing\<close>

lemma stream_chunker_raises:
  assumes "chunker env text = Inl err"
  shows "stream_resume_processing env text =
           [Yield (progress_event (now env 0)), ChunkerRun text,
            Yield (error_event (''Processing error: '' @ str_exn err) (now env 1))]"
  using assms by (simp add: stream_resume_processing_def)

lemma stream_extract_raises:
  assumes "chunker env text = Inr sections"
    and "snd (extract_data_from_text env text) = Inl e"
  shows "stream_resume_processing env text =
           [Yield (progress_event (now env 0)), ChunkerRun text,
            Yield (processing_strategy_event (now env 1)),
            ServiceCall (extraction_request (rnd env) text),
            Yield (error_event (''Processing failed: '' @ str_exn e) (now env 2))]"
proof -
  obtain calls r where cr: "extract_data_from_text env text = (calls, r)"
    by (cases "extract_data_from_text env text")
  with assms(2) extract_calls [of env "text"]
  have "calls = [ServiceCall (extraction_request (rnd env) text)]" and "r = Inl e"
    by simp_all
  with assms(1) cr show ?thesis
    by (simp add: stream_resume_processing_def)
qed

lemma stream_extract_returns:
  assumes "chunker env text = Inr sections"
    and "snd (extract_data_from_text env text) = Inr v"
  shows "stream_resume_processing env text =
           [Yield (progress_event (now env 0)), ChunkerRun text,
            Yield (processing_strategy_event (now env 1)),
            ServiceCall (extraction_request (rnd env) text),
            Yield (full_resume_complete_event (now env 2)),
            Yield (final_data_event v (now env 3)),
            Yield (complete_event (now env 4))]"
proof -
  obtain calls r where cr: "extract_data_from_text env text = (calls, r)"
    by (cases "extract_data_from_text env text")
  with assms(2) extract_calls [of env "text"]
  have "calls = [ServiceCall (extraction_request (rnd env) text)]" and "r = Inr v"
    by simp_all
  with assms(1) cr show ?thesis
    by (simp add: stream_resume_processing_def)
qed

lemmas event_defs = progress_event_def processing_strategy_event_def
  full_resume_complete_event_def final_data_event_def complete_event_def error_event_def

lemma event_type_simps:
  "event_type (progress_event ts) = ''progress''"
  "event_type (processing_strategy_event ts) = ''processing_strategy''"
  "event_type (full_resume_complete_event ts) = ''full_resume_complete''"
  "event_type (final_data_event v ts) = ''final_data''"
  "event_type (complete_event ts) = ''complete''"
  "event_type (error_event m ts) = ''error''"
  by (simp_all add: event_type_def field_def event_defs)

lemma progress_of_simps:
  "progress_of (progress_event ts) = Some 10"
  "progress_of (processing_strategy_event ts) = Some 45"
  "progress_of (full_resume_complete_event ts) = Some 90"
  "progress_of (final_data_event v ts) = Some 98"
  "progress_of (complete_event ts) = Some 100"
  "progress_of (error_event m ts) = None"
  by (simp_all add: progress_of_def field_def event_defs)

lemma is_terminal_simps:
  "\<not> is_terminal (progress_event ts)"
  "\<not> is_terminal (processing_strategy_event ts)"
  "\<not> is_terminal (full_resume_complete_event ts)"
  "\<not> is_terminal (final_data_event v ts)"
  "is_terminal (complete_event ts)"
  "is_terminal (error_event m ts)"
  by (simp_all add: is_terminal_def event_type_simps)

section \<open>Facts about add\_prompt\_variation\<close>

lemma distinct_population: "distinct population"
  by (simp add: population_def)

lemma length_random_choices:
  "length (random_choices pop k idxs) = min k (length idxs)"
  by (simp add: random_choices_def min.commute)

lemma random_choices_inj:
  assumes ok1: "entropy_ok e1" and ok2: "entropy_ok e2"
    and eq: "random_choices population 13 (choice_indices e1) =
             random_choices population 13 (choice_indices e2)"
  shows "choice_indices e1 = choice_indices e2"
proof (rule nth_equalityI)
  from ok1 ok2 show len: "length (choice_indices e1) = length (choice_indices e2)"
    by (simp add: entropy_ok_def)
  fix i assume i: "i < length (choice_indices e1)"
  with ok1 ok2 len have b1: "choice_indices e1 ! i < length population"
    and b2: "choice_indices e2 ! i < length population"
    by (simp_all add: entropy_ok_def list_all_length)
  from ok1 ok2 eq have "map (\<lambda>j. population ! j) (choice_indices e1) =
      map (\<lambda>j. population ! j) (choice_indices e2)"
    by (simp add: random_choices_def entropy_ok_def)
  then have "map (\<lambda>j. population ! j) (choice_indices e1) ! i =
      map (\<lambda>j. population ! j) (choice_indices e2) ! i"
    by simp
  with i len have "population ! (choice_indices e1 ! i) = population ! (choice_indices e2 ! i)"
    by simp
  with b1 b2 show "choice_indices e1 ! i = choice_indices e2 ! i"
    by (simp add: nth_eq_iff_index_eq [OF distinct_population])
qed

lemma session_id_suffix:
  assumes ok1: "entropy_ok e1" and ok2: "entropy_ok e2"
    and eq: "session_id e1 = session_id e2"
  shows "choice_indices e1 = choice_indices e2"
proof -
  let ?r1 = "random_choices population 13 (choice_indices e1)"
  let ?r2 = "random_choices population 13 (choice_indices e2)"
  from ok1 ok2 have len: "length ?r1 = length ?r2"
    by (simp add: length_random_choices entropy_ok_def)
  from eq have "(''CACHE_BYPASS_'' @ str_int (time_ms e1) @ ''_'') @ ?r1 =
                (''CACHE_BYPASS_'' @ str_int (time_ms e2) @ ''_'') @ ?r2"
    by (simp add: session_id_def)
  with len have "?r1 = ?r2"
    using append_eq_append_conv by blast
  with ok1 ok2 show ?thesis by (rule random_choices_inj)
qed

lemma prompt_variation_suffix:
  assumes ok1: "entropy_ok e1" and ok2: "entropy_ok e2"
    and ts: "time_ms e1 = time_ms e2"
    and eq: "add_prompt_variation e1 p1 = add_prompt_variation e2 p2"
  shows "choice_indices e1 = choice_indices e2"
proof -
  let ?r1 = "random_choices population 13 (choice_indices e1)"
  let ?r2 = "random_choices population 13 (choice_indices e2)"
  from ok1 ok2 have len: "length ?r1 = length ?r2"
    by (simp add: length_random_choices entropy_ok_def)
  from eq ts have "?r1 @ ('']'' @ nl @ ''[Analysis Timestamp: '' @ isoformat_now e1 @ '']'' @ nl
        @ ''[Cache Bypass ID: '' @ str_int (randint_value e1) @ '']'' @ nl @ nl @ p1) =
      ?r2 @ ('']'' @ nl @ ''[Analysis Timestamp: '' @ isoformat_now e2 @ '']'' @ nl
        @ ''[Cache Bypass ID: '' @ str_int (randint_value e2) @ '']'' @ nl @ nl @ p2)"
    by (simp add: add_prompt_variation_def cache_breaker_def session_id_def)
  with len have "?r1 = ?r2"
    using append_eq_append_conv by blast
  with ok1 ok2 show ?thesis by (rule random_choices_inj)
qed


section \<open>The collaborators of the examples\<close>

lemma sample_env_simps:
  "chunker (sample_env service) = chunker_finding [(''Experience'', ''Job A'')]"
  "create (sample_env service) = service"
  "loads (sample_env service) = json_loads"
  "rnd (sample_env service) = sample_entropy"
  by (simp_all add: sample_env_def)

lemma json_loads_empty_object: "json_loads ''{}'' = Inr (JObject [])"
  by code_simp

lemma json_loads_empty_array: "json_loads ''[]'' = Inr (JArray [])"
  by code_simp

lemma json_loads_number: "json_loads ''42'' = Inr (JInt 42)"
  by code_simp

lemma json_loads_not_json: "json_loads ''not json'' = Inl (JSONDecodeError ''Expecting value'')"
  by code_simp

lemma json_loads_truncated: "json_loads ''{'' = Inl (JSONDecodeError ''Expecting value'')"
  by code_simp

lemma extract_chunker_update:
  "extract_data_from_text (env\<lparr>chunker := c\<rparr>) text = extract_data_from_text env text"
  by (simp add: extract_data_from_text_def Let_def split: sum.splits)

lemma sample_extract_empty_object:
  "snd (extract_data_from_text (sample_env (service_returning ''{}'')) sample_text)
     = Inr (JObject [])"
  by (rule extract_decoded [where response = "response_with ''{}''" and args = "''{}''"])
     (simp_all add: sample_env_simps service_returning_def tool_call_arguments_response_with
        json_loads_empty_object)

lemma sample_extract_empty_array:
  "snd (extract_data_from_text (sample_env (service_returning ''[]'')) sample_text)
     = Inr (JArray [])"
  by (rule extract_decoded [where response = "response_with ''[]''" and args = "''[]''"])
     (simp_all add: sample_env_simps service_returning_def tool_call_arguments_response_with
        json_loads_empty_array)

lemma sample_chunker:
  "chunker (sample_env service) sample_text = Inr [(''Experience'', ''Job A'')]"
  by (simp add: sample_env_simps chunker_finding_def)

lemma sample_entropy_ok: "entropy_ok sample_entropy"
  by (simp add: entropy_ok_def sample_entropy_def population_def)

lemma repeated_entropy_ok: "entropy_ok repeated_entropy"
  by (simp add: entropy_ok_def repeated_entropy_def population_def)

lemma fresh_entropy_ok: "entropy_ok fresh_entropy"
  by (simp add: entropy_ok_def fresh_entropy_def population_def)

lemma session_id_sample:
  "session_id sample_entropy = ''CACHE_BYPASS_1700000000123_abcdefghij019''"
  by (simp add: session_id_def sample_entropy_def random_choices_def population_def
      str_int_def str_digits.simps digit_char_def)

lemma session_id_repeated:
  "session_id repeated_entropy = ''CACHE_BYPASS_1700000000123_abcdefghij019''"
  by (simp add: session_id_def repeated_entropy_def random_choices_def population_def
      str_int_def str_digits.simps digit_char_def)

section \<open>The claims about extract\_data\_from\_text\<close>

text \<open>
  C1, as amended. For every input text and every behaviour of the collaborators,
  \<^verbatim>\<open>extract_data_from_text\<close> either raises the fatal error of its outer handler, or
  returns the canonical default structure, which has every required top-level key, or
  returns the decoded tool-call arguments as they are. No check of the required keys
  stands between \<^verbatim>\<open>json.loads\<close> and the \<^verbatim>\<open>return\<close>.
\<close>

theorem extract_raises_or_default_or_decoded:
  "(\<exists>err. snd (extract_data_from_text env text) = Inl (failed_to_extract err))
   \<or> (snd (extract_data_from_text env text) = Inr get_default_resume_structure
       \<and> has_required_keys get_default_resume_structure)
   \<or> (\<exists>response args v.
         create env (extraction_request (rnd env) text) = Inr response
         \<and> tool_call_arguments response = Inr args
         \<and> loads env args = Inr v
         \<and> snd (extract_data_from_text env text) = Inr v)"
proof (cases "snd (extract_data_from_text env text)")
  case (Inl e)
  with extract_raises_cases [OF Inl] show ?thesis by blast
next
  case (Inr v)
  from extract_returns_cases [OF Inr] Inr default_has_required_keys show ?thesis
    by auto
qed

text \<open>
  C1 as stated fails: when the service answers with the arguments \<^verbatim>\<open>{}\<close>, the function
  returns the empty dictionary, which has none of the required keys.
\<close>

theorem extract_required_keys_counterexample:
  "snd (extract_data_from_text (sample_env (service_returning ''{}'')) sample_text)
     = Inr (JObject [])
   \<and> \<not> has_required_keys (JObject [])"
proof -
  have "snd (extract_data_from_text (sample_env (service_returning ''{}'')) sample_text)
          = Inr (JObject [])"
    by (rule extract_decoded [where response = "response_with ''{}''" and args = "''{}''"])
       (simp_all add: sample_env_simps service_returning_def tool_call_arguments_response_with
          json_loads_empty_object)
  moreover have "\<not> has_required_keys (JObject [])"
    by (simp add: has_required_keys_def keys_def resume_function_required_def)
  ultimately show ?thesis by simp
qed

text \<open>
  C2, as amended. When the tool-call arguments of the response are not JSON, that is
  when \<^verbatim>\<open>json.loads\<close> raises \<^verbatim>\<open>JSONDecodeError\<close>, the function does not raise: it
  returns the canonical default structure, whose keys are the top-level properties of
  the schema and whose values are all empty.
\<close>

theorem extract_default_on_decode_error:
  assumes "create env (extraction_request (rnd env) text) = Inr response"
    and "tool_call_arguments response = Inr args"
    and "loads env args = Inl (JSONDecodeError m)"
  shows "snd (extract_data_from_text env text) = Inr get_default_resume_structure
         \<and> all_fields_blank get_default_resume_structure
         \<and> keys get_default_resume_structure = map fst resume_function_properties"
  using assms
  by (simp add: extract_decode_error default_all_fields_blank default_keys)

theorem extract_default_on_decode_error_witness:
  "create (sample_env (service_returning ''not json''))
       (extraction_request (rnd (sample_env (service_returning ''not json''))) sample_text)
     = Inr (response_with ''not json'')
   \<and> tool_call_arguments (response_with ''not json'') = Inr ''not json''
   \<and> loads (sample_env (service_returning ''not json'')) ''not json''
       = Inl (JSONDecodeError ''Expecting value'')
   \<and> snd (extract_data_from_text (sample_env (service_returning ''not json'')) sample_text)
       = Inr get_default_resume_structure
   \<and> all_fields_blank get_default_resume_structure
   \<and> keys get_default_resume_structure = map fst resume_function_properties"
proof -
  have h1: "create (sample_env (service_returning ''not json''))
       (extraction_request (rnd (sample_env (service_returning ''not json''))) sample_text)
     = Inr (response_with ''not json'')"
    by (simp add: sample_env_simps service_returning_def)
  have h2: "tool_call_arguments (response_with ''not json'') = Inr ''not json''"
    by (rule tool_call_arguments_response_with)
  have h3: "loads (sample_env (service_returning ''not json'')) ''not json''
       = Inl (JSONDecodeError ''Expecting value'')"
    by (simp add: sample_env_simps json_loads_not_json)
  from extract_default_on_decode_error [OF h1 h2 h3] h1 h2 h3 show ?thesis
    by simp
qed

text \<open>
  C2 as stated fails for a payload that is JSON but does not have the shape of the
  schema: the arguments \<^verbatim>\<open>[]\<close> decode to the empty list, and the function returns
  that list, not the default structure.
\<close>

theorem extract_structural_mismatch_counterexample:
  "snd (extract_data_from_text (sample_env (service_returning ''[]'')) sample_text)
     = Inr (JArray [])
   \<and> JArray [] \<noteq> get_default_resume_structure
   \<and> \<not> has_required_keys (JArray [])"
proof -
  have "snd (extract_data_from_text (sample_env (service_returning ''[]'')) sample_text)
          = Inr (JArray [])"
    by (rule extract_decoded [where response = "response_with ''[]''" and args = "''[]''"])
       (simp_all add: sample_env_simps service_returning_def tool_call_arguments_response_with
          json_loads_empty_array)
  moreover have "JArray [] \<noteq> get_default_resume_structure"
    by (simp add: get_default_resume_structure_def)
  moreover have "\<not> has_required_keys (JArray [])"
    by (simp add: has_required_keys_def is_object_def)
  ultimately show ?thesis by simp
qed

text \<open>
  C10. When the tool-call arguments of the response are valid JSON, the function
  returns the value that \<^verbatim>\<open>json.loads\<close> decoded, whatever it is: the theorem asks
  nothing of the value, so it holds for a dictionary without the required keys and for a
  value that is not a dictionary.
\<close>

theorem extract_returns_decoded_unchanged:
  assumes "create env (extraction_request (rnd env) text) = Inr response"
    and "tool_call_arguments response = Inr args"
    and "loads env args = Inr v"
  shows "snd (extract_data_from_text env text) = Inr v"
  using assms by (simp add: extract_data_from_text_def Let_def)

theorem extract_returns_decoded_unchanged_witness:
  "create (sample_env (service_returning ''42''))
       (extraction_request (rnd (sample_env (service_returning ''42''))) sample_text)
     = Inr (response_with ''42'')
   \<and> tool_call_arguments (response_with ''42'') = Inr ''42''
   \<and> loads (sample_env (service_returning ''42'')) ''42'' = Inr (JInt 42)
   \<and> snd (extract_data_from_text (sample_env (service_returning ''42'')) sample_text)
       = Inr (JInt 42)
   \<and> \<not> is_object (JInt 42)"
proof -
  have h1: "create (sample_env (service_returning ''42''))
       (extraction_request (rnd (sample_env (service_returning ''42''))) sample_text)
     = Inr (response_with ''42'')"
    by (simp add: sample_env_simps service_returning_def)
  have h2: "tool_call_arguments (response_with ''42'') = Inr ''42''"
    by (rule tool_call_arguments_response_with)
  have h3: "loads (sample_env (service_returning ''42'')) ''42'' = Inr (JInt 42)"
    by (simp add: sample_env_simps json_loads_number)
  from extract_returns_decoded_unchanged [OF h1 h2 h3] h1 h2 h3 show ?thesis
    by (simp add: is_object_def)
qed

section \<open>The claims about stream\_resume\_processing\<close>

text \<open>
  C3, as amended. In a run in which the service answers and the tool-call arguments of
  its answer are not JSON, that is when \<^verbatim>\<open>json.loads\<close> raises \<^verbatim>\<open>JSONDecodeError\<close>,
  the events are \<^verbatim>\<open>progress\<close>, \<^verbatim>\<open>processing_strategy\<close>,
  \<^verbatim>\<open>full_resume_complete\<close>, \<^verbatim>\<open>final_data\<close> and \<^verbatim>\<open>complete\<close>, in this order and with
  no \<^verbatim>\<open>error\<close> event, and the \<^verbatim>\<open>data\<close> of the \<^verbatim>\<open>final_data\<close> event is the canonical
  default structure, which has every required key and only empty values.
\<close>

theorem stream_malformed_payload_completes:
  assumes "chunker env text = Inr sections"
    and "create env (extraction_request (rnd env) text) = Inr response"
    and "tool_call_arguments response = Inr args"
    and "loads env args = Inl (JSONDecodeError m)"
  shows "map event_type (events (stream_resume_processing env text)) =
           [''progress'', ''processing_strategy'', ''full_resume_complete'', ''final_data'',
            ''complete'']
         \<and> ''error'' \<notin> set (map event_type (events (stream_resume_processing env text)))
         \<and> event_type (last (events (stream_resume_processing env text))) = ''complete''
         \<and> field (events (stream_resume_processing env text) ! 3) ''data''
             = Some get_default_resume_structure
         \<and> has_required_keys get_default_resume_structure
         \<and> all_fields_blank get_default_resume_structure"
proof -
  have "snd (extract_data_from_text env text) = Inr get_default_resume_structure"
    using assms(2-4) by (rule extract_decode_error)
  from stream_extract_returns [OF assms(1) this]
  show ?thesis
    by (simp add: event_type_simps default_has_required_keys default_all_fields_blank)
       (simp add: final_data_event_def field_def)
qed

theorem stream_malformed_payload_completes_witness:
  "chunker (sample_env (service_returning ''{'')) sample_text = Inr [(''Experience'', ''Job A'')]
   \<and> create (sample_env (service_returning ''{''))
         (extraction_request (rnd (sample_env (service_returning ''{''))) sample_text)
       = Inr (response_with ''{'')
   \<and> tool_call_arguments (response_with ''{'') = Inr ''{''
   \<and> loads (sample_env (service_returning ''{'')) ''{''
       = Inl (JSONDecodeError ''Expecting value'')
   \<and> map event_type (events (stream_resume_processing (sample_env (service_returning ''{''))
         sample_text)) =
         [''progress'', ''processing_strategy'', ''full_resume_complete'', ''final_data'',
          ''complete'']
   \<and> field (events (stream_resume_processing (sample_env (service_returning ''{''))
         sample_text) ! 3) ''data'' = Some get_default_resume_structure"
proof -
  have h0: "chunker (sample_env (service_returning ''{'')) sample_text
      = Inr [(''Experience'', ''Job A'')]"
    by (simp add: sample_env_simps chunker_finding_def)
  have h1: "create (sample_env (service_returning ''{''))
         (extraction_request (rnd (sample_env (service_returning ''{''))) sample_text)
       = Inr (response_with ''{'')"
    by (simp add: sample_env_simps service_returning_def)
  have h2: "tool_call_arguments (response_with ''{'') = Inr ''{''"
    by (rule tool_call_arguments_response_with)
  have h3: "loads (sample_env (service_returning ''{'')) ''{''
       = Inl (JSONDecodeError ''Expecting value'')"
    by (simp add: sample_env_simps json_loads_truncated)
  from stream_malformed_payload_completes [OF h0 h1 h2 h3] h0 h1 h2 h3 show ?thesis
    by simp
qed

text \<open>
  C3 as stated fails for a payload that is malformed by its structure: the arguments
  \<^verbatim>\<open>[]\<close> are JSON but do not have the shape of the schema. The service answers, the
  run still goes through \<^verbatim>\<open>full_resume_complete\<close> and \<^verbatim>\<open>final_data\<close> and ends in
  \<^verbatim>\<open>complete\<close>, but the \<^verbatim>\<open>data\<close> of the \<^verbatim>\<open>final_data\<close> event is the empty list, which
  is not the default structure and has none of the required keys.
\<close>

theorem stream_structural_mismatch_counterexample:
  "create (sample_env (service_returning ''[]''))
       (extraction_request (rnd (sample_env (service_returning ''[]''))) sample_text)
     = Inr (response_with ''[]'')
   \<and> map event_type (events (stream_resume_processing (sample_env (service_returning ''[]''))
         sample_text)) =
       [''progress'', ''processing_strategy'', ''full_resume_complete'', ''final_data'',
        ''complete'']
   \<and> field (events (stream_resume_processing (sample_env (service_returning ''[]''))
         sample_text) ! 3) ''data'' = Some (JArray [])
   \<and> JArray [] \<noteq> get_default_resume_structure
   \<and> \<not> has_required_keys (JArray [])"
proof -
  have called: "create (sample_env (service_returning ''[]''))
       (extraction_request (rnd (sample_env (service_returning ''[]''))) sample_text)
     = Inr (response_with ''[]'')"
    by (simp add: sample_env_simps service_returning_def)
  have run: "events (stream_resume_processing (sample_env (service_returning ''[]'')) sample_text) =
      [progress_event (now (sample_env (service_returning ''[]'')) 0),
       processing_strategy_event (now (sample_env (service_returning ''[]'')) 1),
       full_resume_complete_event (now (sample_env (service_returning ''[]'')) 2),
       final_data_event (JArray []) (now (sample_env (service_returning ''[]'')) 3),
       complete_event (now (sample_env (service_returning ''[]'')) 4)]"
    by (simp add: stream_extract_returns [OF sample_chunker sample_extract_empty_array])
  have types: "map event_type (events (stream_resume_processing
        (sample_env (service_returning ''[]'')) sample_text)) =
       [''progress'', ''processing_strategy'', ''full_resume_complete'', ''final_data'',
        ''complete'']"
    by (simp add: run event_type_simps)
  have data: "field (events (stream_resume_processing (sample_env (service_returning ''[]''))
         sample_text) ! 3) ''data'' = Some (JArray [])"
    by (simp add: run final_data_event_def field_def)
  have differs: "JArray [] \<noteq> get_default_resume_structure"
    by (simp add: get_default_resume_structure_def)
  have partial: "\<not> has_required_keys (JArray [])"
    by (simp add: has_required_keys_def is_object_def)
  from called types data differs partial show ?thesis
    by blast
qed

text \<open>
  C4. In a run in which the call of the completion service raises, the events are
  exactly \<^verbatim>\<open>progress\<close> with progress 10, \<^verbatim>\<open>processing_strategy\<close> with progress 45 and
  one \<^verbatim>\<open>error\<close> event, which carries no progress and is the last thing the run does;
  the service was called once.
\<close>

theorem stream_service_failure_events:
  assumes "chunker env text = Inr sections"
    and "create env (extraction_request (rnd env) text) = Inl err"
  shows "events (stream_resume_processing env text) =
           [progress_event (now env 0), processing_strategy_event (now env 1),
            error_event (''Processing failed: Failed to extract data: '' @ str_exn err)
              (now env 2)]
         \<and> map event_type (events (stream_resume_processing env text)) =
             [''progress'', ''processing_strategy'', ''error'']
         \<and> map progress_of (events (stream_resume_processing env text)) =
             [Some 10, Some 45, None]
         \<and> service_calls (stream_resume_processing env text) =
             [extraction_request (rnd env) text]
         \<and> (\<exists>e. last (stream_resume_processing env text) = Yield e \<and> event_type e = ''error'')"
proof -
  have "snd (extract_data_from_text env text) = Inl (failed_to_extract err)"
    using assms(2) by (rule extract_service_failure)
  from stream_extract_raises [OF assms(1) this]
  show ?thesis
    by (simp add: event_type_simps progress_of_simps failed_to_extract_def)
qed

theorem stream_service_failure_events_witness:
  "chunker (sample_env (service_failing (Exception ''Connection error.''))) sample_text
     = Inr [(''Experience'', ''Job A'')]
   \<and> create (sample_env (service_failing (Exception ''Connection error.'')))
         (extraction_request (rnd (sample_env (service_failing (Exception ''Connection error.''))))
            sample_text)
       = Inl (Exception ''Connection error.'')
   \<and> map event_type (events (stream_resume_processing
         (sample_env (service_failing (Exception ''Connection error.''))) sample_text)) =
         [''progress'', ''processing_strategy'', ''error'']
   \<and> map progress_of (events (stream_resume_processing
         (sample_env (service_failing (Exception ''Connection error.''))) sample_text)) =
         [Some 10, Some 45, None]
   \<and> length (service_calls (stream_resume_processing
         (sample_env (service_failing (Exception ''Connection error.''))) sample_text)) = 1"
proof -
  have h0: "chunker (sample_env (service_failing (Exception ''Connection error.''))) sample_text
     = Inr [(''Experience'', ''Job A'')]"
    by (simp add: sample_env_simps chunker_finding_def)
  have h1: "create (sample_env (service_failing (Exception ''Connection error.'')))
         (extraction_request (rnd (sample_env (service_failing (Exception ''Connection error.''))))
            sample_text)
       = Inl (Exception ''Connection error.'')"
    by (simp add: sample_env_simps service_failing_def)
  from stream_service_failure_events [OF h0 h1] h0 h1 show ?thesis
    by (simp add: event_type_simps progress_of_simps)
qed

text \<open>
  C5. In every run, whatever the collaborators do, the progress values of the events
  are non-decreasing in emission order, exactly one event is terminal
  (\<^verbatim>\<open>complete\<close> or \<^verbatim>\<open>error\<close>), and it is the last event: \<^verbatim>\<open>complete\<close> with
  progress 100, or \<^verbatim>\<open>error\<close>.
\<close>

theorem stream_progress_monotone_one_terminal:
  "sorted (progress_values (events (stream_resume_processing env text)))
   \<and> events (stream_resume_processing env text) \<noteq> []
   \<and> length (filter is_terminal (events (stream_resume_processing env text))) = 1
   \<and> (event_type (last (events (stream_resume_processing env text))) = ''complete''
        \<and> progress_of (last (events (stream_resume_processing env text))) = Some 100
      \<or> event_type (last (events (stream_resume_processing env text))) = ''error'')"
proof (cases "chunker env text")
  case (Inl err)
  show ?thesis
    by (simp add: stream_chunker_raises [OF Inl] progress_values_def List.map_filter_simps
        progress_of_simps is_terminal_simps event_type_simps)
next
  case (Inr sections)
  show ?thesis
  proof (cases "snd (extract_data_from_text env text)")
    case (Inl e)
    show ?thesis
      by (simp add: stream_extract_raises [OF Inr Inl] progress_values_def List.map_filter_simps
          progress_of_simps is_terminal_simps event_type_simps)
  next
    case (Inr v)
    show ?thesis
      by (simp add: stream_extract_returns [OF \<open>chunker env text = Inr sections\<close> Inr]
          progress_values_def List.map_filter_simps
          progress_of_simps is_terminal_simps event_type_simps)
  qed
qed

text \<open>
  C6, as amended. In a run in which \<^verbatim>\<open>extract_data_from_text\<close> returns a value (the
  decoded arguments or the default structure), the events are exactly five:
  \<^verbatim>\<open>progress\<close> with the message \<^verbatim>\<open>Analyzing resume structure...\<close> and progress 10,
  \<^verbatim>\<open>processing_strategy\<close> with progress 45, \<^verbatim>\<open>full_resume_complete\<close> with progress
  90 and the token usage, \<^verbatim>\<open>final_data\<close> with progress 98 and the returned value as
  its data, and \<^verbatim>\<open>complete\<close> with progress 100.
\<close>

theorem stream_success_events:
  assumes "chunker env text = Inr sections"
    and "snd (extract_data_from_text env text) = Inr v"
  shows "events (stream_resume_processing env text) =
           [progress_event (now env 0), processing_strategy_event (now env 1),
            full_resume_complete_event (now env 2), final_data_event v (now env 3),
            complete_event (now env 4)]
         \<and> map event_type (events (stream_resume_processing env text)) =
             [''progress'', ''processing_strategy'', ''full_resume_complete'', ''final_data'',
              ''complete'']
         \<and> map progress_of (events (stream_resume_processing env text)) =
             [Some 10, Some 45, Some 90, Some 98, Some 100]
         \<and> field (events (stream_resume_processing env text) ! 0) ''message''
             = Some (JString ''Analyzing resume structure...'')
         \<and> field (events (stream_resume_processing env text) ! 2) ''tokenUsage''
             = Some token_usage
         \<and> field (events (stream_resume_processing env text) ! 3) ''data'' = Some v"
proof -
  from stream_extract_returns [OF assms]
  show ?thesis
    by (simp add: event_type_simps progress_of_simps)
       (simp add: event_defs field_def)
qed

theorem stream_success_events_witness:
  "chunker (sample_env (service_returning ''{}'')) sample_text = Inr [(''Experience'', ''Job A'')]
   \<and> snd (extract_data_from_text (sample_env (service_returning ''{}'')) sample_text)
       = Inr (JObject [])
   \<and> map event_type (events (stream_resume_processing (sample_env (service_returning ''{}''))
         sample_text)) =
       [''progress'', ''processing_strategy'', ''full_resume_complete'', ''final_data'',
        ''complete'']
   \<and> map progress_of (events (stream_resume_processing (sample_env (service_returning ''{}''))
         sample_text)) =
       [Some 10, Some 45, Some 90, Some 98, Some 100]
   \<and> field (events (stream_resume_processing (sample_env (service_returning ''{}''))
         sample_text) ! 3) ''data'' = Some (JObject [])"
proof -
  have h0: "chunker (sample_env (service_returning ''{}'')) sample_text
      = Inr [(''Experience'', ''Job A'')]"
    by (rule sample_chunker)
  have h1: "snd (extract_data_from_text (sample_env (service_returning ''{}'')) sample_text)
       = Inr (JObject [])"
    by (rule sample_extract_empty_object)
  from stream_success_events [OF h0 h1] h0 h1 show ?thesis
    by blast
qed

text \<open>
  C6 as stated fails on the message of the first event: the claim gives it as
  \<^verbatim>\<open>analyzing resume structure\<close>, the generator yields
  \<^verbatim>\<open>Analyzing resume structure...\<close>.
\<close>

theorem stream_first_message_counterexample:
  "snd (extract_data_from_text (sample_env (service_returning ''{}'')) sample_text)
     = Inr (JObject [])
   \<and> field (hd (events (stream_resume_processing (sample_env (service_returning ''{}''))
         sample_text))) ''message''
       = Some (JString ''Analyzing resume structure...'')
   \<and> field (hd (events (stream_resume_processing (sample_env (service_returning ''{}''))
         sample_text))) ''message''
       \<noteq> Some (JString ''analyzing resume structure'')"
proof -
  have "events (stream_resume_processing (sample_env (service_returning ''{}'')) sample_text) =
          progress_event (now (sample_env (service_returning ''{}'')) 0)
          # tl (events (stream_resume_processing (sample_env (service_returning ''{}''))
               sample_text))"
    by (simp add: stream_extract_returns [OF sample_chunker sample_extract_empty_object])
  then have "hd (events (stream_resume_processing (sample_env (service_returning ''{}''))
               sample_text))
             = progress_event (now (sample_env (service_returning ''{}'')) 0)"
    by (metis list.sel(1))
  then show ?thesis
    by (simp add: sample_extract_empty_object progress_event_def field_def)
qed

text \<open>
  C8. What the chunker returns has no effect on the run. With any other chunker that
  returns, the run does the same things in the same order; the service is called once,
  and the user message of that call is the cache-busting preamble, the fixed task
  framing and the whole raw text; the chunker runs after the \<^verbatim>\<open>progress\<close> event and
  before the \<^verbatim>\<open>processing_strategy\<close> event, whose content does not mention the
  sections.
\<close>

theorem stream_independent_of_chunker_result:
  assumes "chunker env text = Inr sections"
    and "c text = Inr sections'"
  shows "stream_resume_processing (env\<lparr>chunker := c\<rparr>) text = stream_resume_processing env text
         \<and> service_calls (stream_resume_processing env text) = [extraction_request (rnd env) text]
         \<and> map snd (messages (extraction_request (rnd env) text)) =
             [get_system_prompt, cache_breaker (rnd env) @ task_prompt [] @ text]
         \<and> (\<exists>rest. stream_resume_processing env text =
               Yield (progress_event (now env 0)) # ChunkerRun text #
               Yield (processing_strategy_event (now env 1)) # rest)"
proof -
  have same: "stream_resume_processing (env\<lparr>chunker := c\<rparr>) text = stream_resume_processing env text"
    using assms by (simp add: stream_resume_processing_def extract_chunker_update)
  have "\<exists>tail. stream_resume_processing env text =
          Yield (progress_event (now env 0)) # ChunkerRun text #
          Yield (processing_strategy_event (now env 1)) #
          ServiceCall (extraction_request (rnd env) text) # map Yield tail"
  proof (cases "snd (extract_data_from_text env text)")
    case (Inl e)
    from stream_extract_raises [OF assms(1) Inl] show ?thesis
      by (intro exI [of _ "[error_event (''Processing failed: '' @ str_exn e) (now env 2)]"]) simp
  next
    case (Inr v)
    from stream_extract_returns [OF assms(1) Inr] show ?thesis
      by (intro exI [of _ "[full_resume_complete_event (now env 2),
            final_data_event v (now env 3), complete_event (now env 4)]"]) simp
  qed
  then obtain tail where run: "stream_resume_processing env text =
          Yield (progress_event (now env 0)) # ChunkerRun text #
          Yield (processing_strategy_event (now env 1)) #
          ServiceCall (extraction_request (rnd env) text) # map Yield tail"
    by blast
  have no_calls: "service_calls (map Yield es) = []" for es
    by (induction es) simp_all
  from run have calls:
    "service_calls (stream_resume_processing env text) = [extraction_request (rnd env) text]"
    by (simp add: no_calls)
  from run have start: "\<exists>rest. stream_resume_processing env text =
               Yield (progress_event (now env 0)) # ChunkerRun text #
               Yield (processing_strategy_event (now env 1)) # rest"
    by simp
  have msgs: "map snd (messages (extraction_request (rnd env) text)) =
             [get_system_prompt, cache_breaker (rnd env) @ task_prompt [] @ text]"
    by (simp add: extraction_request_def add_prompt_variation_def task_prompt_def)
  from same calls msgs start show ?thesis by simp
qed

theorem stream_independent_of_chunker_result_witness:
  "chunker (sample_env (service_returning ''{}'')) sample_text = Inr [(''Experience'', ''Job A'')]
   \<and> chunker_finding [] sample_text = Inr []
   \<and> stream_resume_processing
         ((sample_env (service_returning ''{}''))\<lparr>chunker := chunker_finding []\<rparr>) sample_text
       = stream_resume_processing (sample_env (service_returning ''{}'')) sample_text
   \<and> service_calls (stream_resume_processing (sample_env (service_returning ''{}'')) sample_text)
       = [extraction_request sample_entropy sample_text]"
proof -
  have h0: "chunker (sample_env (service_returning ''{}'')) sample_text
      = Inr [(''Experience'', ''Job A'')]"
    by (rule sample_chunker)
  have h1: "chunker_finding [] sample_text = Inr []"
    by (simp add: chunker_finding_def)
  from stream_independent_of_chunker_result [where c = "chunker_finding []", OF h0 h1] h0 h1
  show ?thesis
    by (simp add: sample_env_simps)
qed

section \<open>The claim about add\_prompt\_variation\<close>

text \<open>
  C7, as amended. Two calls whose 13 random characters differ produce different session
  identifiers, and, when they read the same millisecond timestamp, different preambles
  for the same base prompt. The difference rests on the random draws alone.
\<close>

theorem prompt_variation_differs_with_suffix:
  assumes "entropy_ok e1"
    and "entropy_ok e2"
    and "choice_indices e1 \<noteq> choice_indices e2"
  shows "session_id e1 \<noteq> session_id e2
         \<and> (time_ms e1 = time_ms e2 \<longrightarrow>
              add_prompt_variation e1 base_prompt \<noteq> add_prompt_variation e2 base_prompt)"
  using assms session_id_suffix [of e1 e2]
    prompt_variation_suffix [of e1 e2 base_prompt base_prompt]
  by blast

theorem prompt_variation_differs_with_suffix_witness:
  "entropy_ok sample_entropy \<and> entropy_ok fresh_entropy
   \<and> choice_indices sample_entropy \<noteq> choice_indices fresh_entropy
   \<and> time_ms sample_entropy = time_ms fresh_entropy
   \<and> session_id sample_entropy \<noteq> session_id fresh_entropy
   \<and> add_prompt_variation sample_entropy sample_text
       \<noteq> add_prompt_variation fresh_entropy sample_text"
proof -
  have h3: "choice_indices sample_entropy \<noteq> choice_indices fresh_entropy"
    by (simp add: sample_entropy_def fresh_entropy_def)
  have ts: "time_ms sample_entropy = time_ms fresh_entropy"
    by (simp add: sample_entropy_def fresh_entropy_def)
  from prompt_variation_differs_with_suffix [OF sample_entropy_ok fresh_entropy_ok h3,
      of sample_text] sample_entropy_ok fresh_entropy_ok h3 ts
  show ?thesis by blast
qed

text \<open>
  C7 as stated fails: nothing but chance keeps two calls from reading the same clock
  values and drawing the same random numbers, and then they produce the same session
  identifier and the same preamble.
\<close>

theorem prompt_variation_collision_counterexample:
  "entropy_ok sample_entropy \<and> entropy_ok repeated_entropy
   \<and> session_id sample_entropy = ''CACHE_BYPASS_1700000000123_abcdefghij019''
   \<and> session_id repeated_entropy = ''CACHE_BYPASS_1700000000123_abcdefghij019''
   \<and> add_prompt_variation sample_entropy sample_text
       = add_prompt_variation repeated_entropy sample_text"
proof -
  have "sample_entropy = repeated_entropy"
    by (simp add: sample_entropy_def repeated_entropy_def)
  then have "add_prompt_variation sample_entropy sample_text
       = add_prompt_variation repeated_entropy sample_text"
    by simp
  with sample_entropy_ok repeated_entropy_ok session_id_sample session_id_repeated
  show ?thesis by simp
qed

section \<open>The claim about the text chunker\<close>

text \<open>
  C9. On the text of the four lines \<^verbatim>\<open>**Experience**\<close>, \<^verbatim>\<open>Job A\<close>,
  \<^verbatim>\<open>**Education**\<close>, \<^verbatim>\<open>School B\<close> the chunker returns two sections in the order of
  the text: \<^verbatim>\<open>Experience\<close> with the body \<^verbatim>\<open>Job A\<close>, then \<^verbatim>\<open>Education\<close> with the
  body \<^verbatim>\<open>School B\<close>.
\<close>

theorem chunk_bold_headings_example:
  "chunk_resume_from_bold_headings
     (''**Experience**'' @ nl @ ''Job A'' @ nl @ ''**Education**'' @ nl @ ''School B'')
   = [\<lparr>heading = ''Experience'', body = ''Job A''\<rparr>,
      \<lparr>heading = ''Education'', body = ''School B''\<rparr>]"
  by code_simp

end
